theory Spec2Isabelle
  imports Main "HOL-Library.AList"
begin

section \<open>Python values used by docsai\<close>

text \<open>
  A Python \<open>str\<close> is a sequence of Unicode code points. Isabelle's \<open>char\<close> has only
  256 values, and \<open>str.splitlines\<close> also breaks at U+2028 and U+2029, so text is a list
  of code points. \<open>py\<close> turns an ASCII literal into such a text.
\<close>

type_synonym pystr = "nat list"

definition py :: "string \<Rightarrow> pystr" where
  "py cs = map of_char cs"

text \<open>
  The exceptions of the program and of its specification. \<open>Exit n\<close> is
  \<open>typer.Exit(code=n)\<close>; \<open>ServiceFailure\<close> is any failure of the model service;
  \<open>MarkupError\<close> is raised by \<open>rich\<close> on a text whose markup is ill-formed.
\<close>

datatype exc =
    Exit int
  | FileNotFoundError
  | NotADirectoryError
  | IsADirectoryError
  | MarkupError
  | KeyError
  | TypeError
  | ValueError
  | IndexError
  | TomlDecodeError
  | ServiceFailure

subsection \<open>\<open>str.splitlines\<close>, slicing and \<open>str.join\<close>\<close>

text \<open>
  The line boundaries of \<open>str.splitlines\<close>: LF, VT, FF, CR, FS, GS, RS, NEL, LS and PS.
\<close>

definition is_linebreak :: "nat \<Rightarrow> bool" where
  "is_linebreak c \<longleftrightarrow> c \<in> {10, 11, 12, 13, 28, 29, 30, 133, 8232, 8233}"

text \<open>
  \<open>splitlines_from cur s\<close> scans \<open>s\<close> with \<open>cur\<close> the part of the current line read so
  far. CR LF counts as one break, the breaks are not kept, and a text that ends with a
  break has no empty last line.
\<close>

fun splitlines_from :: "pystr \<Rightarrow> pystr \<Rightarrow> pystr list" where
  "splitlines_from cur [] = (if cur = [] then [] else [cur])"
| "splitlines_from cur (c # cs) =
     (if c = 13 then
        (case cs of
           [] \<Rightarrow> [cur]
         | d # ds \<Rightarrow> if d = 10 then cur # splitlines_from [] ds
                     else cur # splitlines_from [] (d # ds))
      else if is_linebreak c then cur # splitlines_from [] cs
      else splitlines_from (cur @ [c]) cs)"

definition splitlines :: "pystr \<Rightarrow> pystr list" where
  "splitlines s = splitlines_from [] s"

text \<open>
  The index arithmetic of a Python slice \<open>xs[start:stop]\<close> with step 1: a negative
  index counts from the end, and both ends are clamped into \<open>0..len(xs)\<close>. A slice
  never raises.
\<close>

definition slice_index :: "nat \<Rightarrow> int \<Rightarrow> nat" where
  "slice_index n i =
     (if i < 0 then nat (max 0 (int n + i)) else min n (nat i))"

definition py_slice :: "'a list \<Rightarrow> int \<Rightarrow> int \<Rightarrow> 'a list" where
  "py_slice xs start stop =
     (let lo = slice_index (length xs) start;
          hi = slice_index (length xs) stop
      in take (hi - lo) (drop lo xs))"

fun join :: "pystr \<Rightarrow> pystr list \<Rightarrow> pystr" where
  "join sep [] = []"
| "join sep [x] = x"
| "join sep (x # y # ys) = x @ sep @ join sep (y # ys)"

text \<open>
  Lines 157 and 158 of main.py (123 and 124 of doc\_main.py):
  \<^verbatim>\<open>doc_code = doc_code.splitlines()[1:-1]\<close>, \<^verbatim>\<open>doc_code = "\n".join(doc_code)\<close>.
\<close>

definition strip_fence :: "pystr \<Rightarrow> pystr" where
  "strip_fence text = join [10] (py_slice (splitlines text) 1 (- 1))"


subsection \<open>Paths\<close>

text \<open>
  A \<open>pathlib.Path\<close> on a POSIX system: whether it starts at the root, and its
  components. \<open>name\<close> is the last component, the empty string for the root and for \<open>.\<close>
\<close>

record path =
  absolute :: bool
  parts :: "pystr list"

definition name :: "path \<Rightarrow> pystr" where
  "name p = (if parts p = [] then [] else last (parts p))"

definition parent :: "path \<Rightarrow> path" where
  "parent p = p\<lparr>parts := butlast (parts p)\<rparr>"

definition joinpath :: "path \<Rightarrow> pystr \<Rightarrow> path" where
  "joinpath p n = p\<lparr>parts := parts p @ [n]\<rparr>"

text \<open>
  \<open>Path.with_name\<close> raises \<open>ValueError\<close> on a path whose name is empty. The new name
  is always \<open>doc_\<close> followed by a path component here, which pathlib accepts.
\<close>

definition with_name :: "path \<Rightarrow> pystr \<Rightarrow> exc + path" where
  "with_name p n =
     (if name p = [] then Inl ValueError
      else Inr (p\<lparr>parts := take (length (parts p) - 1) (parts p) @ [n]\<rparr>))"

text \<open>
  \<open>str(path)\<close>, as an f-string shows a path: the components joined by \<open>/\<close>, after
  \<open>/\<close> for an absolute path; \<open>.\<close> for the relative path with no component.
\<close>

definition path_str :: "path \<Rightarrow> pystr" where
  "path_str p =
     (if parts p = [] then (if absolute p then [47] else [46])
      else (if absolute p then [47] else []) @ join [47] (parts p))"

text \<open>
  The paths above a path: its proper prefixes with at least one component, the
  shortest first.
\<close>

definition ancestors :: "path \<Rightarrow> path list" where
  "ancestors p = map (\<lambda>n. p\<lparr>parts := take n (parts p)\<rparr>) [1..<length (parts p)]"

subsection \<open>TOML documents\<close>

text \<open>
  What \<open>toml.load\<close> returns and \<open>toml.dump\<close> takes: a Python \<open>dict\<close>, kept as an
  association list in insertion order. \<open>TPath\<close> is the \<open>Path\<close> object that \<open>config\<close>
  stores under \<open>PATH.PATH\<close>; \<open>TOther\<close> stands for the remaining scalars (floats, dates).
\<close>

datatype toml_value =
    TStr pystr
  | TInt int
  | TBool bool
  | TOther pystr
  | TPath path
  | TArray "toml_value list"
  | TTable "(pystr \<times> toml_value) list"

type_synonym toml_dict = "(pystr \<times> toml_value) list"

text \<open>\<open>obj[key]\<close> with a string key: only a dict can be indexed that way.\<close>

fun getitem :: "toml_value \<Rightarrow> pystr \<Rightarrow> exc + toml_value" where
  "getitem (TTable t) k = (case map_of t k of None \<Rightarrow> Inl KeyError | Some v \<Rightarrow> Inr v)"
| "getitem _ k = Inl TypeError"

text \<open>\<open>obj[key] = value\<close>: a dict replaces the entry in place or appends it.\<close>

fun setitem :: "toml_value \<Rightarrow> pystr \<Rightarrow> toml_value \<Rightarrow> exc + toml_value" where
  "setitem (TTable t) k v = Inr (TTable (AList.update k v t))"
| "setitem _ k v = Inl TypeError"

text \<open>
  \<open>d[k1][k2] = value\<close> on a dict \<open>d\<close>: the inner object is looked up and changed in
  place, so \<open>d\<close> holds the changed object afterwards.
\<close>

definition setitem2 :: "toml_dict \<Rightarrow> pystr \<Rightarrow> pystr \<Rightarrow> toml_value \<Rightarrow> exc + toml_dict" where
  "setitem2 d k1 k2 v =
     (case getitem (TTable d) k1 of
        Inl e \<Rightarrow> Inl e
      | Inr inner \<Rightarrow>
          (case setitem inner k2 v of
             Inl e \<Rightarrow> Inl e
           | Inr inner' \<Rightarrow> Inr (AList.update k1 inner' d)))"

subsection \<open>The world: files and what the program emits\<close>

text \<open>
  The messages passed to \<open>typer.echo\<close>, each with the value its f-string shows:
  \<^item> \<open>ConfigNotFound p\<close>: ``Configuration file not found at p, please create one.''
  \<^item> \<open>ApiKeyNotFound\<close>: ``API key not found. Please configure it using
    'docsai config --api-key'.''
  \<^item> \<open>DocReady n\<close>: ``Documentation for n ready''

  The message for a missing file goes through \<open>print\<close> of \<open>rich\<close>, which reads square
  brackets in its argument as markup: it is kept as text, and \<open>Print s\<close> records the
  text \<open>s\<close> that \<open>rich\<close> has shown.
\<close>

datatype message =
    ConfigNotFound path
  | ApiKeyNotFound
  | DocReady pystr

datatype event =
    Opened path
  | Written path pystr
  | Generated pystr
  | Configured toml_value
  | Echo message
  | Print pystr
  | Traceback exc

text \<open>
  The file system: \<open>files\<close> gives the regular file at a path, as the text that
  \<open>read()\<close> returns, and \<open>dirs\<close> tells which paths are directories. Every entry can be
  read (permissions and limits on the length of names are left out) and writing always
  succeeds. \<open>log\<close> records, in order, every file opened for reading, every file
  written, every request sent to the model, the credential given to \<open>genai.configure\<close>
  and every message.
\<close>

record world =
  files :: "path \<Rightarrow> pystr option"
  dirs :: "path \<Rightarrow> bool"
  log :: "event list"

text \<open>
  What the program takes from outside: \<open>Path.resolve\<close> (the working directory and the
  symbolic links), \<open>Path.home()\<close>, the \<open>toml\<close> library, the model service, which
  answers a source text under the system instruction built for a language, or fails, and
  \<open>print\<close> of \<open>rich\<close>, which shows a text after reading its markup, or raises.
\<close>

record env =
  resolve :: "path \<Rightarrow> path"
  home :: path
  toml_load :: "pystr \<Rightarrow> exc + toml_dict"
  toml_dump :: "toml_dict \<Rightarrow> pystr"
  generate :: "pystr option \<Rightarrow> pystr \<Rightarrow> exc + pystr"
  rich_print :: "pystr \<Rightarrow> exc + pystr"

definition emit :: "event \<Rightarrow> world \<Rightarrow> world" where
  "emit e w = w\<lparr>log := log w @ [e]\<rparr>"

text \<open>
  What \<open>open(p, "r")\<close> raises where there is no regular file: \<open>IsADirectoryError\<close> on
  a directory, \<open>NotADirectoryError\<close> on a path under a regular file, and
  \<open>FileNotFoundError\<close> on a path with no entry.
\<close>

definition is_file :: "world \<Rightarrow> path \<Rightarrow> bool" where
  "is_file w p = (case files w p of None \<Rightarrow> False | Some t \<Rightarrow> True)"

definition open_error :: "world \<Rightarrow> path \<Rightarrow> exc" where
  "open_error w p =
     (if dirs w p then IsADirectoryError
      else if list_ex (is_file w) (ancestors p) then NotADirectoryError
      else FileNotFoundError)"

definition open_read :: "path \<Rightarrow> world \<Rightarrow> (exc + pystr) \<times> world" where
  "open_read p w =
     (case files w p of
        None \<Rightarrow> (Inl (open_error w p), w)
      | Some text \<Rightarrow> (Inr text, emit (Opened p) w))"

definition write_file :: "path \<Rightarrow> pystr \<Rightarrow> world \<Rightarrow> world" where
  "write_file p text w = emit (Written p text) (w\<lparr>files := (files w)(p \<mapsto> text)\<rparr>)"

text \<open>\<open>Path.exists()\<close>: a regular file or a directory is there.\<close>

definition exists_file :: "path \<Rightarrow> world \<Rightarrow> bool" where
  "exists_file p w = (if is_file w p then True else dirs w p)"

section \<open>src/docsai/main.py\<close>

text \<open>\<open>Path.home() / "docsai.toml"\<close>\<close>

definition default_config_path :: "env \<Rightarrow> path" where
  "default_config_path E = joinpath (home E) (py ''docsai.toml'')"

text \<open>
  \<open>config\<close>, lines 64 to 81. The \<open>try\<close> covers the \<open>open\<close> and \<open>toml.load\<close>; its handler
  takes \<open>FileNotFoundError\<close> only.
\<close>

definition config :: "env \<Rightarrow> pystr \<Rightarrow> path \<Rightarrow> world \<Rightarrow> (exc + unit) \<times> world" where
  "config E api_key config_path w =
     (let not_found = (Inl (Exit 1), emit (Echo (ConfigNotFound config_path)) w) in
      case open_read config_path w of
        (Inl e, w1) \<Rightarrow> if e = FileNotFoundError then not_found else (Inl e, w1)
      | (Inr text, w1) \<Rightarrow>
          (case toml_load E text of
             Inl e \<Rightarrow>
               if e = FileNotFoundError
               then (Inl (Exit 1), emit (Echo (ConfigNotFound config_path)) w1)
               else (Inl e, w1)
           | Inr config_file \<Rightarrow>
               (let cf1 = (if map_of config_file (py ''API'') = None
                           then AList.update (py ''API'') (TTable []) config_file
                           else config_file);
                    cf2 = (if map_of cf1 (py ''PATH'') = None
                           then AList.update (py ''PATH'') (TTable []) cf1
                           else cf1)
                in case setitem2 cf2 (py ''API'') (py ''API_KEY'') (TStr api_key) of
                     Inl e \<Rightarrow> (Inl e, w1)
                   | Inr cf3 \<Rightarrow>
                       (case setitem2 cf3 (py ''PATH'') (py ''PATH'') (TPath config_path) of
                          Inl e \<Rightarrow> (Inl e, w1)
                        | Inr cf4 \<Rightarrow>
                            (Inr (), write_file config_path (toml_dump E cf4) w1)))))"

text \<open>
  \<open>load_config\<close>, lines 119 to 126: the value at \<open>API.API_KEY\<close>, or \<open>False\<close> when a
  \<open>KeyError\<close> is raised. Every other exception leaves the function.
\<close>

definition load_config :: "env \<Rightarrow> path \<Rightarrow> world \<Rightarrow> (exc + toml_value) \<times> world" where
  "load_config E config_path w =
     (case open_read config_path w of
        (Inl e, w1) \<Rightarrow> if e = KeyError then (Inr (TBool False), w1) else (Inl e, w1)
      | (Inr text, w1) \<Rightarrow>
          (let r = (case toml_load E text of
                      Inl e \<Rightarrow> Inl e
                    | Inr config_file \<Rightarrow>
                        (case getitem (TTable config_file) (py ''API'') of
                           Inl e \<Rightarrow> Inl e
                         | Inr api \<Rightarrow> getitem api (py ''API_KEY'')))
           in case r of
                Inl e \<Rightarrow> if e = KeyError then (Inr (TBool False), w1) else (Inl e, w1)
              | Inr api_key \<Rightarrow> (Inr api_key, w1)))"

text \<open>
  \<open>init_config\<close>, lines 92 to 105. \<open>api_key is False\<close> holds of the boolean \<open>False\<close>
  alone.
\<close>

definition init_config :: "env \<Rightarrow> world \<Rightarrow> (exc + unit) \<times> world" where
  "init_config E w =
     (let config_path = default_config_path E;
          w1 = (if \<not> exists_file config_path w then write_file config_path [] w else w)
      in case load_config E config_path w1 of
           (Inl e, w2) \<Rightarrow> (Inl e, w2)
         | (Inr api_key, w2) \<Rightarrow>
             if api_key = TBool False
             then (Inl (Exit 1), emit (Echo ApiKeyNotFound) w2)
             else (Inr (), emit (Configured api_key) w2))"

text \<open>Lines 147 to 151: the output path of one input file.\<close>

definition output_path :: "env \<Rightarrow> bool \<Rightarrow> path \<Rightarrow> exc + path" where
  "output_path E replace file =
     (if replace then Inr (resolve E file)
      else with_name (resolve E file) (py ''doc_'' @ name file))"

text \<open>
  Lines 154 to 162, the body of the \<open>try\<close> for one file: read it, ask the model, strip
  the first and the last line, write the rest and announce it.
\<close>

definition document_file ::
  "env \<Rightarrow> (pystr \<Rightarrow> exc + pystr) \<Rightarrow> path \<Rightarrow> path \<Rightarrow> world \<Rightarrow> (exc + unit) \<times> world" where
  "document_file E model file output_file w =
     (case open_read (resolve E file) w of
        (Inl e, w1) \<Rightarrow> (Inl e, w1)
      | (Inr file_content, w1) \<Rightarrow>
          (let w2 = emit (Generated file_content) w1 in
           case model file_content of
             Inl e \<Rightarrow> (Inl e, w2)
           | Inr text \<Rightarrow>
               (let doc_code = strip_fence text;
                    w3 = write_file output_file doc_code w2
                in (Inr (), emit (Echo (DocReady (name file))) w3))))"

text \<open>Line 165: the text \<^verbatim>\<open>f"The file {file} doesn't exist"\<close>.\<close>

definition missing_message :: "path \<Rightarrow> pystr" where
  "missing_message file = py ''The file '' @ path_str file @ py '' doesn'' @ [39] @ py ''t exist''"

text \<open>
  \<open>handling_files\<close>, lines 145 to 166: the loop over the files. The output path is
  computed outside the \<open>try\<close>; the handler takes \<open>FileNotFoundError\<close> only, and
  \<open>typer.Exit\<close> is raised after \<open>print\<close> of \<open>rich\<close> has returned.
\<close>

fun handling_files ::
  "env \<Rightarrow> path list \<Rightarrow> bool \<Rightarrow> (pystr \<Rightarrow> exc + pystr) \<Rightarrow> world \<Rightarrow> (exc + unit) \<times> world" where
  "handling_files E [] replace model w = (Inr (), w)"
| "handling_files E (file # rest) replace model w =
     (case output_path E replace file of
        Inl e \<Rightarrow> (Inl e, w)
      | Inr output_file \<Rightarrow>
          (case document_file E model file output_file w of
             (Inl e, w1) \<Rightarrow>
               if e = FileNotFoundError
               then (case rich_print E (missing_message file) of
                       Inl e' \<Rightarrow> (Inl e', w1)
                     | Inr shown \<Rightarrow> (Inl (Exit 1), emit (Print shown) w1))
               else (Inl e, w1)
           | (Inr u, w1) \<Rightarrow> handling_files E rest replace model w1))"

text \<open>
  \<open>document\<close>, lines 31 to 36: the model object is built first (no request is sent),
  then the configuration is loaded, then the files are handled.
\<close>

definition document ::
  "env \<Rightarrow> path list \<Rightarrow> bool \<Rightarrow> pystr option \<Rightarrow> world \<Rightarrow> (exc + unit) \<times> world" where
  "document E file_list replace language w =
     (let model = generate E language in
      case init_config E w of
        (Inl e, w1) \<Rightarrow> (Inl e, w1)
      | (Inr u, w1) \<Rightarrow> handling_files E file_list replace model w1)"

text \<open>
  \<open>app()\<close>: the process around a command. \<open>typer.Exit(code=n)\<close> ends it with status
  \<open>n\<close>; any other exception reaches the interpreter, which prints a traceback and ends
  with status 1; a command that returns ends with status 0.
\<close>

definition app :: "(exc + unit) \<times> world \<Rightarrow> int \<times> world" where
  "app r =
     (case r of
        (Inr u, w) \<Rightarrow> (0, w)
      | (Inl (Exit n), w) \<Rightarrow> (n, w)
      | (Inl e, w) \<Rightarrow> (1, emit (Traceback e) w))"

section \<open>src/docsai/doc\_main.py\<close>

text \<open>
  The second source file, translated on its own: \<open>config\<close> (lines 46 to 63),
  \<open>load_config\<close> (85 to 92), \<open>init_config\<close> (68 to 81), \<open>handling_files\<close> (111 to 132)
  and \<open>document\<close> (31 to 36).
\<close>

definition dm_config :: "env \<Rightarrow> pystr \<Rightarrow> path \<Rightarrow> world \<Rightarrow> (exc + unit) \<times> world" where
  "dm_config E api_key config_path w =
     (case open_read config_path w of
        (Inl e, w1) \<Rightarrow>
          if e = FileNotFoundError
          then (Inl (Exit 1), emit (Echo (ConfigNotFound config_path)) w1)
          else (Inl e, w1)
      | (Inr text, w1) \<Rightarrow>
          (case toml_load E text of
             Inl e \<Rightarrow>
               if e = FileNotFoundError
               then (Inl (Exit 1), emit (Echo (ConfigNotFound config_path)) w1)
               else (Inl e, w1)
           | Inr config_file \<Rightarrow>
               (let with_api = (if map_of config_file (py ''API'') = None
                                then AList.update (py ''API'') (TTable []) config_file
                                else config_file);
                    with_path = (if map_of with_api (py ''PATH'') = None
                                 then AList.update (py ''PATH'') (TTable []) with_api
                                 else with_api)
                in case setitem2 with_path (py ''API'') (py ''API_KEY'') (TStr api_key) of
                     Inl e \<Rightarrow> (Inl e, w1)
                   | Inr keyed \<Rightarrow>
                       (case setitem2 keyed (py ''PATH'') (py ''PATH'') (TPath config_path) of
                          Inl e \<Rightarrow> (Inl e, w1)
                        | Inr final \<Rightarrow>
                            (Inr (), write_file config_path (toml_dump E final) w1)))))"

definition dm_load_config :: "env \<Rightarrow> path \<Rightarrow> world \<Rightarrow> (exc + toml_value) \<times> world" where
  "dm_load_config E config_path w =
     (case open_read config_path w of
        (Inl e, w1) \<Rightarrow> if e = KeyError then (Inr (TBool False), w1) else (Inl e, w1)
      | (Inr text, w1) \<Rightarrow>
          (case (case toml_load E text of
                   Inl e \<Rightarrow> Inl e
                 | Inr config_file \<Rightarrow>
                     (case getitem (TTable config_file) (py ''API'') of
                        Inl e \<Rightarrow> Inl e
                      | Inr api \<Rightarrow> getitem api (py ''API_KEY''))) of
             Inl e \<Rightarrow> if e = KeyError then (Inr (TBool False), w1) else (Inl e, w1)
           | Inr api_key \<Rightarrow> (Inr api_key, w1)))"

definition dm_init_config :: "env \<Rightarrow> world \<Rightarrow> (exc + unit) \<times> world" where
  "dm_init_config E w =
     (let config_path = joinpath (home E) (py ''docsai.toml'');
          w1 = (if exists_file config_path w then w else write_file config_path [] w)
      in case dm_load_config E config_path w1 of
           (Inl e, w2) \<Rightarrow> (Inl e, w2)
         | (Inr api_key, w2) \<Rightarrow>
             if api_key = TBool False
             then (Inl (Exit 1), emit (Echo ApiKeyNotFound) w2)
             else (Inr (), emit (Configured api_key) w2))"

fun dm_handling_files ::
  "env \<Rightarrow> path list \<Rightarrow> bool \<Rightarrow> (pystr \<Rightarrow> exc + pystr) \<Rightarrow> world \<Rightarrow> (exc + unit) \<times> world" where
  "dm_handling_files E [] replace model w = (Inr (), w)"
| "dm_handling_files E (file # rest) replace model w =
     (case (if replace then Inr (resolve E file)
            else with_name (resolve E file) (py ''doc_'' @ name file)) of
        Inl e \<Rightarrow> (Inl e, w)
      | Inr output_file \<Rightarrow>
          (let missing =
                 (\<lambda>w'. case rich_print E
                               (py ''The file '' @ path_str file @
                                py '' doesn'' @ [39] @ py ''t exist'') of
                         Inl e' \<Rightarrow> (Inl e', w')
                       | Inr shown \<Rightarrow> (Inl (Exit 1), emit (Print shown) w')) in
           case open_read (resolve E file) w of
             (Inl e, w1) \<Rightarrow> if e = FileNotFoundError then missing w1 else (Inl e, w1)
           | (Inr file_content, w1) \<Rightarrow>
               (case model file_content of
                  Inl e \<Rightarrow>
                    if e = FileNotFoundError
                    then missing (emit (Generated file_content) w1)
                    else (Inl e, emit (Generated file_content) w1)
                | Inr text \<Rightarrow>
                    dm_handling_files E rest replace model
                      (emit (Echo (DocReady (name file)))
                        (write_file output_file
                          (join [10] (py_slice (splitlines text) 1 (- 1)))
                          (emit (Generated file_content) w1))))))"

definition dm_document ::
  "env \<Rightarrow> path list \<Rightarrow> bool \<Rightarrow> pystr option \<Rightarrow> world \<Rightarrow> (exc + unit) \<times> world" where
  "dm_document E file_list replace language w =
     (case dm_init_config E w of
        (Inl e, w1) \<Rightarrow> (Inl e, w1)
      | (Inr u, w1) \<Rightarrow> dm_handling_files E file_list replace (generate E language) w1)"

section \<open>What the specification speaks of\<close>

text \<open>
  The entry \<open>API.API_KEY\<close> of a configuration document: the value under \<open>API_KEY\<close> in
  the table \<open>API\<close>, if there is such a table and it has that key.
\<close>

definition api_key_entry :: "toml_dict \<Rightarrow> toml_value option" where
  "api_key_entry d =
     (case map_of d (py ''API'') of
        Some (TTable t) \<Rightarrow> map_of t (py ''API_KEY'')
      | _ \<Rightarrow> None)"

definition is_table :: "toml_value option \<Rightarrow> bool" where
  "is_table v = (case v of Some (TTable t) \<Rightarrow> True | _ \<Rightarrow> False)"

text \<open>Whether a text ends with the newline character.\<close>

definition ends_with_newline :: "pystr \<Rightarrow> bool" where
  "ends_with_newline s \<longleftrightarrow> s \<noteq> [] \<and> last s = 10"

section \<open>An example environment\<close>

text \<open>
  A home directory \<open>/home/u\<close>, a working directory \<open>/work\<close> with a symbolic link
  \<open>link.py\<close> to \<open>/lib/target.py\<close>, a model that wraps the source in a fence, the
  \<open>toml\<close> library on the configuration texts of the examples, and \<open>rich\<close> on the
  messages of the examples.
\<close>

definition abs_path :: "string list \<Rightarrow> path" where
  "abs_path ps = \<lparr>absolute = True, parts = map py ps\<rparr>"

definition rel_path :: "string list \<Rightarrow> path" where
  "rel_path ps = \<lparr>absolute = False, parts = map py ps\<rparr>"

definition ex_config_path :: path where
  "ex_config_path = abs_path [''home'', ''u'', ''docsai.toml'']"

definition toml_examples :: "(pystr \<times> toml_dict) list" where
  "toml_examples =
     [([], []),
      (py ''API = 5'' @ [10], [(py ''API'', TInt 5)]),
      (py ''[API]'' @ [10] @ py ''API_KEY = false'' @ [10],
         [(py ''API'', TTable [(py ''API_KEY'', TBool False)])]),
      (py ''[API]'' @ [10] @ py ''API_KEY = '' @ [34] @ py ''abc'' @ [34, 10],
         [(py ''API'', TTable [(py ''API_KEY'', TStr (py ''abc''))])])]"

definition ex_toml_load :: "pystr \<Rightarrow> exc + toml_dict" where
  "ex_toml_load text =
     (case map_of toml_examples text of None \<Rightarrow> Inl TomlDecodeError | Some d \<Rightarrow> Inr d)"

definition ex_toml_dump :: "toml_dict \<Rightarrow> pystr" where
  "ex_toml_dump d =
     (case find (\<lambda>(text, d'). d' = d) toml_examples of None \<Rightarrow> [] | Some (text, d') \<Rightarrow> text)"

definition ex_resolve :: "path \<Rightarrow> path" where
  "ex_resolve p =
     (if absolute p then p
      else if parts p = [py ''link.py''] then abs_path [''lib'', ''target.py'']
      else \<lparr>absolute = True, parts = py ''work'' # parts p\<rparr>)"

definition ex_generate :: "pystr option \<Rightarrow> pystr \<Rightarrow> exc + pystr" where
  "ex_generate language source = Inr (py ''```python'' @ [10] @ source @ [10] @ py ''```'')"

text \<open>
  \<open>rich\<close> shows a text without square brackets as it is. Of the texts with brackets,
  the message for the missing path \<open>[/x]\<close> holds a closing tag with nothing to close,
  which raises \<open>MarkupError\<close>, and in the message for \<open>pages/[id].tsx\<close> the tag \<open>[id]\<close>
  is taken out.
\<close>

definition rich_examples :: "(pystr \<times> (exc + pystr)) list" where
  "rich_examples =
     [(py ''The file [/x] doesn'' @ [39] @ py ''t exist'', Inl MarkupError),
      (py ''The file pages/[id].tsx doesn'' @ [39] @ py ''t exist'',
         Inr (py ''The file pages/.tsx doesn'' @ [39] @ py ''t exist''))]"

definition ex_rich_print :: "pystr \<Rightarrow> exc + pystr" where
  "ex_rich_print s =
     (case map_of rich_examples s of
        Some r \<Rightarrow> r
      | None \<Rightarrow> if 91 \<in> set s then Inl MarkupError else Inr s)"

definition ex_env :: env where
  "ex_env = \<lparr>resolve = ex_resolve, home = abs_path [''home'', ''u''],
              toml_load = ex_toml_load, toml_dump = ex_toml_dump, generate = ex_generate,
              rich_print = ex_rich_print\<rparr>"

definition ex_dirs :: "path \<Rightarrow> bool" where
  "ex_dirs p \<longleftrightarrow>
     p \<in> set [abs_path [], abs_path [''home''], abs_path [''home'', ''u''],
              abs_path [''work''], abs_path [''lib'']]"

definition ex_world :: "pystr \<Rightarrow> world" where
  "ex_world config_text =
     \<lparr>files = [ex_config_path \<mapsto> config_text,
               abs_path [''work'', ''hello.py''] \<mapsto> py ''print(1)''],
      dirs = ex_dirs,
      log = []\<rparr>"

text \<open>The same world before the first run, with no configuration file yet.\<close>

definition ex_fresh_world :: world where
  "ex_fresh_world =
     \<lparr>files = [abs_path [''work'', ''hello.py''] \<mapsto> py ''print(1)''],
      dirs = ex_dirs,
      log = []\<rparr>"

section \<open>Properties\<close>

lemma py_slice_1_m1: "py_slice xs 1 (- 1) = butlast (tl xs)"
proof (cases "length xs < 2")
  case True
  then have "xs = [] \<or> (\<exists>x. xs = [x])"
    by (cases xs) (auto simp: length_Suc_conv)
  then show ?thesis
    by (auto simp: py_slice_def slice_index_def)
next
  case False
  then have "py_slice xs 1 (- 1) = take (length xs - 2) (drop 1 xs)"
    by (simp add: py_slice_def slice_index_def Let_def nat_diff_distrib min_def
        numeral_2_eq_2)
  also have "\<dots> = butlast (tl xs)"
    using False by (simp add: butlast_conv_take drop_Suc numeral_2_eq_2)
  finally show ?thesis .
qed

lemma strip_fence_butlast_tl:
  "strip_fence response = join [10] (butlast (tl (splitlines response)))"
  by (simp add: strip_fence_def py_slice_1_m1)

lemma butlast_tl_nth: "butlast (tl ls) = map (\<lambda>i. ls ! i) [1..<length ls - 1]"
  by (rule nth_equalityI) (auto simp: nth_butlast nth_tl)

lemma files_emit: "files (emit e w) = files w"
  by (simp add: emit_def)

lemma files_write_file: "files (write_file p t w) = (files w)(p \<mapsto> t)"
  by (simp add: write_file_def emit_def)

lemma document_file_ok:
  assumes "files w (resolve E src) = Some content" and "model content = Inr response"
  shows "document_file E model src out w =
           (Inr (), emit (Echo (DocReady (name src)))
                      (write_file out (strip_fence response)
                        (emit (Generated content) (emit (Opened (resolve E src)) w))))"
  using assms by (simp add: document_file_def open_read_def Let_def)

lemma document_file_missing:
  "files w (resolve E src) = None \<Longrightarrow>
   document_file E model src out w = (Inl (open_error w (resolve E src)), w)"
  by (simp add: document_file_def open_read_def)

lemmas ex_defs =
  ex_env_def ex_world_def ex_resolve_def ex_generate_def ex_config_path_def
  ex_toml_load_def ex_toml_dump_def toml_examples_def abs_path_def rel_path_def py_def
  ex_fresh_world_def ex_dirs_def ex_rich_print_def rich_examples_def

lemmas run_defs =
  document_file_def open_read_def write_file_def emit_def exists_file_def Let_def
  strip_fence_def splitlines_def py_slice_def slice_index_def is_linebreak_def
  open_error_def is_file_def ancestors_def path_str_def missing_message_def

subsection \<open>C1: the persisted lines\<close>

text \<open>
  C1, as the code has it. When the file is read and the model answers with a text of
  \<open>N\<close> lines (the lines of \<open>str.splitlines\<close>), processing the file succeeds and the
  content of the output file is lines \<open>1\<close> to \<open>N - 2\<close> joined by newlines when
  \<open>N \<ge> 2\<close>, and the empty text when \<open>N < 2\<close>: for \<open>N = 1\<close> and for \<open>N = 0\<close> alike,
  since a slice never raises.
\<close>

theorem persisted_lines:
  assumes "files w (resolve E src) = Some content" and "model content = Inr response"
  shows "\<exists>w'. document_file E model src out w = (Inr (), w') \<and>
           files w' out =
             Some (if 2 \<le> length (splitlines response)
                   then join [10] (map (\<lambda>i. splitlines response ! i)
                                     [1..<length (splitlines response) - 1])
                   else [])"
proof -
  let ?ls = "splitlines response"
  have "strip_fence response = (if 2 \<le> length ?ls
          then join [10] (map (\<lambda>i. ?ls ! i) [1..<length ?ls - 1]) else [])"
  proof (cases "2 \<le> length ?ls")
    case True
    then show ?thesis by (simp add: strip_fence_butlast_tl butlast_tl_nth)
  next
    case False
    then have "butlast (tl ?ls) = []"
      by (cases ?ls) (auto simp: not_le less_Suc_eq numeral_2_eq_2)
    with False show ?thesis by (simp add: strip_fence_butlast_tl)
  qed
  then show ?thesis
    using document_file_ok [of w E src content model response out] assms
    by (simp add: files_emit files_write_file)
qed

text \<open>
  The end-to-end scenario of the specification: \<open>hello.py\<close> holds \<open>print(1)\<close>, the model
  answers with three lines, and \<open>doc_hello.py\<close> holds the middle one.
\<close>

theorem persisted_lines_witness:
  "files (ex_world []) (resolve ex_env (rel_path [''hello.py''])) = Some (py ''print(1)'') \<and>
   ex_generate None (py ''print(1)'') =
     Inr (py ''```python'' @ [10] @ py ''print(1)'' @ [10] @ py ''```'') \<and>
   (\<exists>w'. document_file ex_env (ex_generate None) (rel_path [''hello.py''])
            (abs_path [''work'', ''doc_hello.py'']) (ex_world []) = (Inr (), w') \<and>
         files w' (abs_path [''work'', ''doc_hello.py'']) = Some (py ''print(1)''))"
proof -
  have a: "files (ex_world []) (resolve ex_env (rel_path [''hello.py''])) =
             Some (py ''print(1)'')"
    by (simp add: ex_defs)
  have b: "ex_generate None (py ''print(1)'') =
             Inr (py ''```python'' @ [10] @ py ''print(1)'' @ [10] @ py ''```'')"
    by (simp add: ex_defs)
  have c: "splitlines (py ''```python'' @ [10] @ py ''print(1)'' @ [10] @ py ''```'') =
             [py ''```python'', py ''print(1)'', py ''```'']"
    by (simp add: splitlines_def is_linebreak_def py_def)
  have d: "[1..<Suc (Suc 0)] = [1]"
    by (simp add: upt_rec)
  note r = persisted_lines [where model = "ex_generate None"
      and out = "abs_path [''work'', ''doc_hello.py'']", OF a b, unfolded c]
  from r have "\<exists>w'. document_file ex_env (ex_generate None) (rel_path [''hello.py''])
            (abs_path [''work'', ''doc_hello.py'']) (ex_world []) = (Inr (), w') \<and>
         files w' (abs_path [''work'', ''doc_hello.py'']) = Some (py ''print(1)'')"
    by (simp add: d)
  with a b show ?thesis by blast
qed

text \<open>
  C1 as stated fails for \<open>N = 0\<close>: on the empty response no index error is raised, the
  file is processed and the output file is written with the empty text.
\<close>

theorem empty_response_counterexample:
  "length (splitlines []) = 0 \<and>
   fst (document_file ex_env (\<lambda>s. Inr []) (rel_path [''hello.py''])
          (abs_path [''work'', ''doc_hello.py'']) (ex_world [])) \<noteq> Inl IndexError \<and>
   fst (document_file ex_env (\<lambda>s. Inr []) (rel_path [''hello.py''])
          (abs_path [''work'', ''doc_hello.py'']) (ex_world [])) = Inr () \<and>
   files (snd (document_file ex_env (\<lambda>s. Inr []) (rel_path [''hello.py''])
                 (abs_path [''work'', ''doc_hello.py'']) (ex_world [])))
     (abs_path [''work'', ''doc_hello.py'']) = Some []"
  by (simp add: ex_defs run_defs)

subsection \<open>C10: the end of the written content\<close>

lemma splitlines_from_no_break:
  "(\<forall>c\<in>set cur. \<not> is_linebreak c) \<Longrightarrow> l \<in> set (splitlines_from cur s) \<Longrightarrow>
   (\<forall>c\<in>set l. \<not> is_linebreak c)"
proof (induction cur s rule: splitlines_from.induct)
  case (1 cur)
  then show ?case by (simp split: if_splits)
next
  case (2 cur c cs)
  have e: "\<forall>c\<in>set ([]::nat list). \<not> is_linebreak c" by simp
  show ?case
  proof (cases "c = 13")
    case True
    show ?thesis
    proof (cases cs)
      case Nil
      with True "2.prems" show ?thesis by simp
    next
      case (Cons d ds)
      show ?thesis
      proof (cases "d = 10")
        case d: True
        from "2.prems"(2) True Cons d
        have "l = cur \<or> l \<in> set (splitlines_from [] ds)" by simp
        then show ?thesis
          using "2.prems"(1) "2.IH"(1) [OF True Cons d e] by blast
      next
        case d: False
        from "2.prems"(2) True Cons d
        have "l = cur \<or> l \<in> set (splitlines_from [] (d # ds))" by simp
        then show ?thesis
          using "2.prems"(1) "2.IH"(2) [OF True Cons d e] by blast
      qed
    qed
  next
    case False
    show ?thesis
    proof (cases "is_linebreak c")
      case b: True
      from "2.prems"(2) False b
      have "l = cur \<or> l \<in> set (splitlines_from [] cs)" by simp
      then show ?thesis
        using "2.prems"(1) "2.IH"(3) [OF False b e] by blast
    next
      case b: False
      from "2.prems"(2) False b
      have "l \<in> set (splitlines_from (cur @ [c]) cs)" by simp
      moreover have "\<forall>x\<in>set (cur @ [c]). \<not> is_linebreak x"
        using "2.prems"(1) b by simp
      ultimately show ?thesis
        using "2.IH"(4) [OF False b] by blast
    qed
  qed
qed


lemma splitlines_no_newline: "l \<in> set (splitlines s) \<Longrightarrow> 10 \<notin> set l"
  using splitlines_from_no_break [of "[]" l s]
  by (auto simp: splitlines_def is_linebreak_def)

lemma join_snoc: "join sep (ls @ [l]) = (if ls = [] then l else join sep ls @ sep @ l)"
  by (induction sep ls rule: join.induct) auto

lemma ends_with_newline_join:
  assumes "\<forall>l\<in>set ls. 10 \<notin> set l"
  shows "ends_with_newline (join [10] ls) \<longleftrightarrow> 2 \<le> length ls \<and> last ls = []"
proof (cases ls rule: rev_cases)
  case Nil
  then show ?thesis by (simp add: ends_with_newline_def)
next
  case (snoc ks l)
  with assms have l: "10 \<notin> set l" by simp
  then have nl: "l \<noteq> [] \<Longrightarrow> last l \<noteq> 10"
    using last_in_set by metis
  show ?thesis
  proof (cases "ks = []")
    case True
    with snoc nl show ?thesis by (auto simp: ends_with_newline_def)
  next
    case False
    then have "2 \<le> length ls" using snoc by (cases ks) auto
    with False snoc nl show ?thesis
      by (auto simp: join_snoc ends_with_newline_def)
  qed
qed

lemma kept_no_newline:
  assumes "l \<in> set (py_slice (splitlines s) 1 (- 1))"
  shows "10 \<notin> set l"
proof -
  from assms have "l \<in> set (butlast (tl (splitlines s)))"
    by (simp add: py_slice_1_m1)
  then have "l \<in> set (tl (splitlines s))"
    by (rule in_set_butlastD)
  then have "l \<in> set (splitlines s)"
    by (cases "splitlines s") auto
  then show ?thesis by (rule splitlines_no_newline)
qed

text \<open>
  C10, as the code has it. The written content is the kept lines joined by newlines,
  with no newline appended after the last one. It ends with a newline exactly when at
  least two lines are kept and the last kept line is empty; so it does not end with one
  whenever the last kept line is not empty.
\<close>

theorem written_terminal_newline:
  assumes "files w (resolve E src) = Some content" and "model content = Inr response"
  shows "\<exists>w'. document_file E model src out w = (Inr (), w') \<and>
           files w' out = Some (join [10] (py_slice (splitlines response) 1 (- 1))) \<and>
           (ends_with_newline (join [10] (py_slice (splitlines response) 1 (- 1))) \<longleftrightarrow>
              2 \<le> length (py_slice (splitlines response) 1 (- 1)) \<and>
              last (py_slice (splitlines response) 1 (- 1)) = [])"
proof -
  have "\<forall>l\<in>set (py_slice (splitlines response) 1 (- 1)). 10 \<notin> set l"
    using kept_no_newline by blast
  then show ?thesis
    using document_file_ok [of w E src content model response out] assms
      ends_with_newline_join [of "py_slice (splitlines response) 1 (- 1)"]
    by (simp add: files_emit files_write_file strip_fence_def)
qed

theorem written_terminal_newline_witness:
  "files (ex_world []) (resolve ex_env (abs_path [''work'', ''hello.py''])) =
     Some (py ''print(1)'') \<and>
   ex_generate (Some (py ''english'')) (py ''print(1)'') =
     Inr (py ''```python'' @ [10] @ py ''print(1)'' @ [10] @ py ''```'') \<and>
   (\<exists>w'. document_file ex_env (ex_generate (Some (py ''english'')))
            (abs_path [''work'', ''hello.py'']) (abs_path [''work'', ''hello.py''])
            (ex_world []) = (Inr (), w') \<and>
         files w' (abs_path [''work'', ''hello.py'']) = Some (py ''print(1)'') \<and>
         \<not> ends_with_newline (py ''print(1)''))"
proof -
  have a: "files (ex_world []) (resolve ex_env (abs_path [''work'', ''hello.py''])) =
             Some (py ''print(1)'')"
    by (simp add: ex_defs)
  have b: "ex_generate (Some (py ''english'')) (py ''print(1)'') =
             Inr (py ''```python'' @ [10] @ py ''print(1)'' @ [10] @ py ''```'')"
    by (simp add: ex_defs)
  have c: "py_slice (splitlines
             (py ''```python'' @ [10] @ py ''print(1)'' @ [10] @ py ''```'')) 1 (- 1) =
             [py ''print(1)'']"
    by (simp add: splitlines_def is_linebreak_def py_def py_slice_def slice_index_def)
  note r = written_terminal_newline [where model = "ex_generate (Some (py ''english''))"
      and out = "abs_path [''work'', ''hello.py'']", OF a b, unfolded c]
  from r have "\<exists>w'. document_file ex_env (ex_generate (Some (py ''english'')))
            (abs_path [''work'', ''hello.py'']) (abs_path [''work'', ''hello.py''])
            (ex_world []) = (Inr (), w') \<and>
         files w' (abs_path [''work'', ''hello.py'']) = Some (py ''print(1)'') \<and>
         \<not> ends_with_newline (py ''print(1)'')"
    by simp
  with a b show ?thesis by blast
qed

text \<open>
  C10 as stated fails: when the model leaves an empty line before the closing fence, the
  written content ends with a newline.
\<close>

theorem terminal_newline_counterexample:
  "files (snd (document_file ex_env
            (\<lambda>s. Inr (py ''```'' @ [10] @ py ''x = 1'' @ [10, 10] @ py ''```''))
            (rel_path [''hello.py'']) (abs_path [''work'', ''doc_hello.py'']) (ex_world [])))
     (abs_path [''work'', ''doc_hello.py'']) = Some (py ''x = 1'' @ [10]) \<and>
   ends_with_newline (py ''x = 1'' @ [10])"
  by (simp add: ex_defs run_defs ends_with_newline_def)

subsection \<open>C2: the output path\<close>

text \<open>
  C2, as the code has it. With \<open>--replace\<close> the output path is the resolved input path,
  which is also the path the file is read from. Without it, and when the resolved path
  has a final component, the output path is the parent directory of the resolved input
  path joined with \<open>doc_\<close> followed by the name of the input path as given.
\<close>

theorem output_path_resolved:
  "output_path E True src = Inr (resolve E src) \<and>
   (name (resolve E src) \<noteq> [] \<longrightarrow>
      output_path E False src =
        Inr (joinpath (parent (resolve E src)) (py ''doc_'' @ name src)))"
  by (simp add: output_path_def with_name_def joinpath_def parent_def butlast_conv_take)

theorem output_path_resolved_witness:
  "name (resolve ex_env (rel_path [''hello.py''])) \<noteq> [] \<and>
   output_path ex_env True (rel_path [''hello.py'']) = Inr (abs_path [''work'', ''hello.py'']) \<and>
   output_path ex_env False (rel_path [''hello.py'']) =
     Inr (abs_path [''work'', ''doc_hello.py''])"
proof -
  have a: "name (resolve ex_env (rel_path [''hello.py''])) \<noteq> []"
    by (simp add: ex_defs name_def)
  have b: "resolve ex_env (rel_path [''hello.py'']) = abs_path [''work'', ''hello.py'']"
    by (simp add: ex_defs)
  have c: "joinpath (parent (abs_path [''work'', ''hello.py'']))
             (py ''doc_'' @ name (rel_path [''hello.py''])) =
           abs_path [''work'', ''doc_hello.py'']"
    by (simp add: joinpath_def parent_def name_def abs_path_def rel_path_def py_def)
  from output_path_resolved [of ex_env "rel_path [''hello.py'']"] a
  show ?thesis by (simp add: b c)
qed

text \<open>
  C2 as stated, with the input path itself in place of its resolved form, fails for an
  input that is a symbolic link: \<open>link.py\<close> in \<open>/work\<close> points to \<open>/lib/target.py\<close>, and
  the output goes to \<open>/lib/doc_link.py\<close>, or with \<open>--replace\<close> to \<open>/lib/target.py\<close>.
\<close>

theorem output_path_symlink_counterexample:
  "output_path ex_env False (rel_path [''link.py'']) = Inr (abs_path [''lib'', ''doc_link.py'']) \<and>
   output_path ex_env False (rel_path [''link.py'']) \<noteq>
     Inr (joinpath (parent (rel_path [''link.py'']))
            (py ''doc_'' @ name (rel_path [''link.py'']))) \<and>
   output_path ex_env True (rel_path [''link.py'']) = Inr (abs_path [''lib'', ''target.py'']) \<and>
   output_path ex_env True (rel_path [''link.py'']) \<noteq> Inr (rel_path [''link.py''])"
  by (simp add: output_path_def with_name_def joinpath_def parent_def name_def ex_defs)

subsection \<open>C3: a missing source file\<close>

lemma handling_files_append:
  "handling_files E (xs @ ys) replace model w =
     (case handling_files E xs replace model w of
        (Inr u, w1) \<Rightarrow> handling_files E ys replace model w1
      | (Inl e, w1) \<Rightarrow> (Inl e, w1))"
proof (induction xs arbitrary: w)
  case Nil
  then show ?case by simp
next
  case (Cons x xs)
  show ?case
  proof (cases "output_path E replace x")
    case (Inl e)
    then show ?thesis by simp
  next
    case (Inr out)
    obtain r w1 where d: "document_file E model x out w = (r, w1)"
      by (cases "document_file E model x out w")
    show ?thesis
    proof (cases r)
      case (Inl e)
      with Inr d show ?thesis by (simp split: sum.splits)
    next
      case r: (Inr u)
      with Inr d Cons.IH [of w1] show ?thesis by simp
    qed
  qed
qed

text \<open>
  When opening the path raises \<open>FileNotFoundError\<close> and \<open>rich\<close> shows the message, the
  run ends as the handler intends: exit code 1 after the message, with the files left by
  the earlier paths and no effect of the later ones.
\<close>

lemma missing_file_reported:
  assumes "handling_files E pre replace model w = (Inr (), w1)"
    and "files w1 (resolve E src) = None"
    and "open_error w1 (resolve E src) = FileNotFoundError"
    and "replace \<or> name (resolve E src) \<noteq> []"
    and "rich_print E (missing_message src) = Inr shown"
  shows "app (handling_files E (pre @ src # post) replace model w) =
           (1, w1\<lparr>log := log w1 @ [Print shown]\<rparr>)"
proof -
  from assms(4) have "\<exists>out. output_path E replace src = Inr out"
    by (cases replace) (simp_all add: output_path_def with_name_def)
  then obtain out where "output_path E replace src = Inr out" ..
  then have "handling_files E (src # post) replace model w1 =
               (Inl (Exit 1), emit (Print shown) w1)"
    using assms(2,3,5) by (simp add: document_file_missing)
  then show ?thesis
    using assms(1) by (simp add: handling_files_append app_def emit_def)
qed

text \<open>
  C3 is what the handler of \<open>handling_files\<close> sets out to do, with its message ``The
  file ... doesn't exist'' and \<open>typer.Exit(code=1)\<close>, but the code misses two cases of a
  path that does not exist. For \<open>hello.py/x.py\<close>, where \<open>hello.py\<close> is a regular file,
  \<open>open\<close> raises \<open>NotADirectoryError\<close>, which the handler for \<open>FileNotFoundError\<close> lets
  through: no message is printed and \<open>typer.Exit\<close> is not raised. For the missing path
  \<open>[/x]\<close> the handler is entered, but \<open>print\<close> of \<open>rich\<close> reads the path as markup and
  raises \<open>MarkupError\<close> before \<open>typer.Exit\<close>; the messages of \<open>config\<close> and of the
  success case go through \<open>typer.echo\<close>, which shows them as they are.
\<close>

theorem missing_file_not_reported:
  "\<not> exists_file (resolve ex_env (rel_path [''hello.py'', ''x.py''])) (ex_world []) \<and>
   handling_files ex_env [rel_path [''hello.py'', ''x.py'']] False (ex_generate None)
     (ex_world []) = (Inl NotADirectoryError, ex_world []) \<and>
   \<not> exists_file (resolve ex_env (rel_path [''['', ''x]''])) (ex_world []) \<and>
   path_str (rel_path [''['', ''x]'']) = py ''[/x]'' \<and>
   handling_files ex_env [rel_path [''['', ''x]'']] False (ex_generate None)
     (ex_world []) = (Inl MarkupError, ex_world [])"
  by (simp add: ex_defs run_defs output_path_def with_name_def name_def)

subsection \<open>C6: \<open>config\<close> without a configuration file\<close>

text \<open>
  When opening \<open>config_path\<close> raises \<open>FileNotFoundError\<close>, \<open>config\<close> ends with exit code 1
  after the message that shows the path, and the files are unchanged.
\<close>

lemma config_file_not_found:
  assumes "files w config_path = None"
    and "open_error w config_path = FileNotFoundError"
  shows "app (config E api_key config_path w) =
           (1, w\<lparr>log := log w @ [Echo (ConfigNotFound config_path)]\<rparr>)"
  using assms by (simp add: config_def open_read_def app_def emit_def)

text \<open>
  C6 is what the docstring of \<open>config\<close> promises (``If the configuration file does not
  exist, the function prints an error message and exits the program''), but the code
  misses a case. No file exists at \<open>/work/hello.py/x.toml\<close>, where \<open>/work/hello.py\<close> is a
  regular file; there \<open>open\<close> raises \<open>NotADirectoryError\<close>, which the handler for
  \<open>FileNotFoundError\<close> lets through: no message is echoed and \<open>typer.Exit\<close> is not raised.
\<close>

theorem config_under_file_raises:
  "files (ex_world []) (abs_path [''work'', ''hello.py'', ''x.toml'']) = None \<and>
   \<not> exists_file (abs_path [''work'', ''hello.py'', ''x.toml'']) (ex_world []) \<and>
   config ex_env (py ''secret'') (abs_path [''work'', ''hello.py'', ''x.toml'']) (ex_world []) =
     (Inl NotADirectoryError, ex_world [])"
  by (simp add: config_def ex_defs run_defs)

subsection \<open>Reading the configuration\<close>

lemma load_config_parsed:
  assumes "files w p = Some t" and "toml_load E t = Inr d"
  shows "load_config E p w =
           ((case map_of d (py ''API'') of
               None \<Rightarrow> Inr (TBool False)
             | Some (TTable tb) \<Rightarrow>
                 (case map_of tb (py ''API_KEY'') of
                    None \<Rightarrow> Inr (TBool False)
                  | Some v \<Rightarrow> Inr v)
             | Some _ \<Rightarrow> Inl TypeError),
            emit (Opened p) w)"
  using assms
  by (simp add: load_config_def open_read_def Let_def
      split: option.splits toml_value.splits)

lemma load_config_key_found:
  assumes "files w p = Some t" and "toml_load E t = Inr d"
    and "api_key_entry d = Some v"
  shows "load_config E p w = (Inr v, emit (Opened p) w)"
  using assms(3) load_config_parsed [OF assms(1,2)]
  by (auto simp: api_key_entry_def split: option.splits toml_value.splits)

lemma load_config_key_absent:
  assumes "files w p = Some t" and "toml_load E t = Inr d"
    and "map_of d (py ''API'') = None \<or>
         (\<exists>tb. map_of d (py ''API'') = Some (TTable tb) \<and> map_of tb (py ''API_KEY'') = None)"
  shows "load_config E p w = (Inr (TBool False), emit (Opened p) w)"
  using assms(3) load_config_parsed [OF assms(1,2)]
  by auto

lemma init_config_existing:
  assumes "files w (default_config_path E) = Some t"
  shows "init_config E w =
     (case load_config E (default_config_path E) w of
           (Inl e, w2) \<Rightarrow> (Inl e, w2)
         | (Inr api_key, w2) \<Rightarrow>
             if api_key = TBool False
             then (Inl (Exit 1), emit (Echo ApiKeyNotFound) w2)
             else (Inr (), emit (Configured api_key) w2))"
  using assms by (simp add: init_config_def exists_file_def is_file_def Let_def)

lemma init_config_absent:
  assumes "files w (default_config_path E) = None" and "\<not> dirs w (default_config_path E)"
    and "toml_load E [] = Inr []"
  shows "init_config E w =
     (Inl (Exit 1),
      w\<lparr>files := (files w)(default_config_path E \<mapsto> []),
        log := log w @ [Written (default_config_path E) [], Opened (default_config_path E),
                        Echo ApiKeyNotFound]\<rparr>)"
proof -
  let ?p = "default_config_path E"
  let ?w1 = "write_file ?p [] w"
  have "files ?w1 ?p = Some []" by (simp add: files_write_file)
  then have "load_config E ?p ?w1 = (Inr (TBool False), emit (Opened ?p) ?w1)"
    using assms(3) by (intro load_config_key_absent [where t = "[]" and d = "[]"]) simp_all
  then show ?thesis
    using assms(1,2)
    by (simp add: init_config_def exists_file_def is_file_def Let_def write_file_def emit_def)
qed

subsection \<open>C4: \<open>load_config\<close> on a file without the key\<close>

text \<open>
  C4 holds when \<open>API\<close> is a table or is absent (\<open>load_config_key_found\<close>,
  \<open>load_config_key_absent\<close>), and the docstring of \<open>load_config\<close> promises ``the API key
  if found, otherwise False''. On the configuration file \<open>API = 5\<close>, which parses as TOML
  and has no entry \<open>API.API_KEY\<close>, the code does not return \<open>False\<close>: indexing the integer
  raises \<open>TypeError\<close>, which the handler for \<open>KeyError\<close> lets through.
\<close>

theorem load_config_not_table_raises:
  "toml_load ex_env (py ''API = 5'' @ [10]) = Inr [(py ''API'', TInt 5)] \<and>
   api_key_entry [(py ''API'', TInt 5)] = None \<and>
   load_config ex_env ex_config_path (ex_world (py ''API = 5'' @ [10])) =
     (Inl TypeError, emit (Opened ex_config_path) (ex_world (py ''API = 5'' @ [10])))"
  by (simp add: load_config_def open_read_def api_key_entry_def ex_defs)

subsection \<open>C7: \<open>document\<close> without a configured key\<close>

text \<open>
  When the configuration file is absent (and the \<open>toml\<close> library reads the empty file
  just created as the empty document), or holds a document in which \<open>API\<close> is absent or
  is a table without \<open>API_KEY\<close>, the \<open>document\<close> command ends with exit code 1 after the
  message that asks to configure the key. Before that it has only created the empty
  configuration file, when it was absent, and opened it.
\<close>

lemma document_asks_for_key:
  assumes "(files w (default_config_path E) = None \<and> \<not> dirs w (default_config_path E) \<and>
            toml_load E [] = Inr []) \<or>
           (files w (default_config_path E) = Some t \<and> toml_load E t = Inr d \<and>
            (map_of d (py ''API'') = None \<or>
             (\<exists>tb. map_of d (py ''API'') = Some (TTable tb) \<and>
                   map_of tb (py ''API_KEY'') = None)))"
  shows "app (document E srcs replace language w) =
           (1, w\<lparr>files := (if files w (default_config_path E) = None
                           then (files w)(default_config_path E \<mapsto> []) else files w),
                 log := log w @
                        (if files w (default_config_path E) = None
                         then [Written (default_config_path E) []] else []) @
                        [Opened (default_config_path E), Echo ApiKeyNotFound]\<rparr>)"
  using assms
proof
  assume "files w (default_config_path E) = None \<and> \<not> dirs w (default_config_path E) \<and>
          toml_load E [] = Inr []"
  then show ?thesis
    by (simp add: document_def init_config_absent app_def)
next
  let ?p = "default_config_path E"
  assume h: "files w ?p = Some t \<and> toml_load E t = Inr d \<and>
            (map_of d (py ''API'') = None \<or>
             (\<exists>tb. map_of d (py ''API'') = Some (TTable tb) \<and>
                   map_of tb (py ''API_KEY'') = None))"
  then have a: "files w ?p = Some t" and b: "toml_load E t = Inr d"
    and c: "map_of d (py ''API'') = None \<or>
         (\<exists>tb. map_of d (py ''API'') = Some (TTable tb) \<and> map_of tb (py ''API_KEY'') = None)"
    by simp_all
  from load_config_key_absent [OF a b c] a show ?thesis
    by (simp add: document_def init_config_existing app_def emit_def)
qed

text \<open>
  C7 is what the docstring of \<open>init_config\<close> promises (``If the API key is not found,
  the user will be prompted to configure it''), but the code misses a case. The
  configuration file \<open>API = 5\<close> parses as TOML and has no entry \<open>API.API_KEY\<close>; there
  \<open>load_config\<close> raises \<open>TypeError\<close>, which passes through \<open>init_config\<close> and
  \<open>document\<close>: the message that asks to configure the key is not echoed and
  \<open>typer.Exit(code=1)\<close> is not raised.
\<close>

theorem document_not_table_raises:
  "files (ex_world (py ''API = 5'' @ [10])) (default_config_path ex_env) =
     Some (py ''API = 5'' @ [10]) \<and>
   toml_load ex_env (py ''API = 5'' @ [10]) = Inr [(py ''API'', TInt 5)] \<and>
   api_key_entry [(py ''API'', TInt 5)] = None \<and>
   document ex_env [rel_path [''hello.py'']] False None (ex_world (py ''API = 5'' @ [10])) =
     (Inl TypeError,
      (ex_world (py ''API = 5'' @ [10]))\<lparr>log := [Opened (default_config_path ex_env)]\<rparr>)"
  by (simp add: document_def init_config_def load_config_def default_config_path_def
      joinpath_def api_key_entry_def ex_defs run_defs)

subsection \<open>C9: the key \<open>false\<close>\<close>

text \<open>
  C9. When the entry \<open>API.API_KEY\<close> of the configuration file is the boolean \<open>false\<close>,
  \<open>load_config\<close> returns \<open>False\<close>, \<open>document\<close> ends with exit code 1 after the message
  that asks to configure the key, with nothing given to \<open>genai.configure\<close>, and the run is
  the same as the run on a configuration file that holds the empty document.
\<close>

theorem false_key_is_unconfigured:
  assumes "files w (default_config_path E) = Some t" and "toml_load E t = Inr d"
    and "api_key_entry d = Some (TBool False)"
  shows "load_config E (default_config_path E) w =
           (Inr (TBool False), emit (Opened (default_config_path E)) w) \<and>
         app (document E srcs replace language w) =
           (1, w\<lparr>log := log w @ [Opened (default_config_path E), Echo ApiKeyNotFound]\<rparr>) \<and>
         document E srcs replace language w =
           document (E\<lparr>toml_load := \<lambda>s. Inr []\<rparr>) srcs replace language w"
proof -
  let ?p = "default_config_path E"
  let ?E = "E\<lparr>toml_load := \<lambda>s. Inr []\<rparr>"
  have l: "load_config E ?p w = (Inr (TBool False), emit (Opened ?p) w)"
    by (rule load_config_key_found [OF assms])
  have p: "default_config_path ?E = ?p"
    by (simp add: default_config_path_def)
  have "load_config ?E ?p w = (Inr (TBool False), emit (Opened ?p) w)"
    by (rule load_config_key_absent [where t = t and d = "[]"]) (simp_all add: assms(1))
  then have "init_config ?E w = init_config E w"
    using l assms(1) init_config_existing [of w E t] init_config_existing [of w ?E t]
    by (simp add: p)
  moreover have "init_config E w = (Inl (Exit 1), emit (Echo ApiKeyNotFound) (emit (Opened ?p) w))"
    using l assms(1) by (simp add: init_config_existing)
  ultimately show ?thesis
    using l by (simp add: document_def app_def emit_def)
qed

theorem false_key_is_unconfigured_witness:
  "files (ex_world (py ''[API]'' @ [10] @ py ''API_KEY = false'' @ [10]))
     (default_config_path ex_env) = Some (py ''[API]'' @ [10] @ py ''API_KEY = false'' @ [10]) \<and>
   toml_load ex_env (py ''[API]'' @ [10] @ py ''API_KEY = false'' @ [10]) =
     Inr [(py ''API'', TTable [(py ''API_KEY'', TBool False)])] \<and>
   api_key_entry [(py ''API'', TTable [(py ''API_KEY'', TBool False)])] = Some (TBool False) \<and>
   app (document ex_env [rel_path [''hello.py'']] False None
          (ex_world (py ''[API]'' @ [10] @ py ''API_KEY = false'' @ [10]))) =
     (1, (ex_world (py ''[API]'' @ [10] @ py ''API_KEY = false'' @ [10]))
           \<lparr>log := [Opened (default_config_path ex_env), Echo ApiKeyNotFound]\<rparr>)"
proof -
  let ?t = "py ''[API]'' @ [10] @ py ''API_KEY = false'' @ [10]"
  have a: "files (ex_world ?t) (default_config_path ex_env) = Some ?t"
    by (simp add: ex_defs default_config_path_def joinpath_def)
  have b: "toml_load ex_env ?t = Inr [(py ''API'', TTable [(py ''API_KEY'', TBool False)])]"
    by (simp add: ex_defs)
  have c: "api_key_entry [(py ''API'', TTable [(py ''API_KEY'', TBool False)])] =
             Some (TBool False)"
    by (simp add: api_key_entry_def)
  have d: "log (ex_world ?t) = []"
    by (simp add: ex_world_def)
  note r = false_key_is_unconfigured [OF a b c, of "[rel_path [''hello.py'']]" False None]
  from r [THEN conjunct2, THEN conjunct1, unfolded d] a b c
  show ?thesis by simp
qed

subsection \<open>C5: what \<open>config\<close> writes\<close>

text \<open>
  When \<open>API\<close> and \<open>PATH\<close> are tables or are absent in the document read, \<open>config\<close>
  succeeds and writes a document with both tables and the given key, and with no key
  twice if the document read had none twice.
\<close>

lemma keys_differ: "py ''API'' \<noteq> py ''PATH''"
  by (simp add: py_def)

lemma ensure_table:
  assumes "map_of d k = None \<or> is_table (map_of d k)"
  shows "is_table (map_of (if map_of d k = None then AList.update k (TTable []) d else d) k)"
  using assms by (auto simp: is_table_def update_conv')

lemma setitem2_table:
  assumes "map_of d k1 = Some (TTable tb)"
  shows "setitem2 d k1 k2 v = Inr (AList.update k1 (TTable (AList.update k2 v tb)) d)"
  using assms by (simp add: setitem2_def)

lemma config_writes_tables:
  assumes "files w p = Some t" and "toml_load E t = Inr d"
    and "map_of d (py ''API'') = None \<or> is_table (map_of d (py ''API''))"
    and "map_of d (py ''PATH'') = None \<or> is_table (map_of d (py ''PATH''))"
  shows "\<exists>d'. config E k p w = (Inr (), write_file p (toml_dump E d') (emit (Opened p) w)) \<and>
           is_table (map_of d' (py ''API'')) \<and> is_table (map_of d' (py ''PATH'')) \<and>
           api_key_entry d' = Some (TStr k) \<and>
           (distinct (map fst d) \<longrightarrow> distinct (map fst d'))"
proof -
  define cf1 where "cf1 = (if map_of d (py ''API'') = None
                           then AList.update (py ''API'') (TTable []) d else d)"
  define cf2 where "cf2 = (if map_of cf1 (py ''PATH'') = None
                           then AList.update (py ''PATH'') (TTable []) cf1 else cf1)"
  have p1: "map_of cf1 (py ''PATH'') = map_of d (py ''PATH'')"
    using keys_differ by (simp add: cf1_def update_conv')
  have "is_table (map_of cf1 (py ''API''))"
    unfolding cf1_def by (rule ensure_table [OF assms(3)])
  then have "is_table (map_of cf2 (py ''API''))"
    using keys_differ by (simp add: cf2_def update_conv')
  then obtain ta where ta: "map_of cf2 (py ''API'') = Some (TTable ta)"
    by (auto simp: is_table_def split: option.splits toml_value.splits)
  have "is_table (map_of cf2 (py ''PATH''))"
    unfolding cf2_def by (rule ensure_table) (simp add: p1 assms(4))
  then obtain tp where tp: "map_of cf2 (py ''PATH'') = Some (TTable tp)"
    by (auto simp: is_table_def split: option.splits toml_value.splits)
  define cf3 where "cf3 = AList.update (py ''API'')
                            (TTable (AList.update (py ''API_KEY'') (TStr k) ta)) cf2"
  define cf4 where "cf4 = AList.update (py ''PATH'')
                            (TTable (AList.update (py ''PATH'') (TPath p) tp)) cf3"
  have s3: "setitem2 cf2 (py ''API'') (py ''API_KEY'') (TStr k) = Inr cf3"
    by (simp add: setitem2_table [OF ta] cf3_def)
  have tp3: "map_of cf3 (py ''PATH'') = Some (TTable tp)"
    using keys_differ tp by (simp add: cf3_def update_conv')
  have s4: "setitem2 cf3 (py ''PATH'') (py ''PATH'') (TPath p) = Inr cf4"
    by (simp add: setitem2_table [OF tp3] cf4_def)
  have run: "config E k p w = (Inr (), write_file p (toml_dump E cf4) (emit (Opened p) w))"
    using assms(1,2) s3 s4
    by (simp add: config_def open_read_def Let_def cf1_def [symmetric] cf2_def [symmetric])
  have a4: "map_of cf4 (py ''API'') =
              Some (TTable (AList.update (py ''API_KEY'') (TStr k) ta))"
    using keys_differ by (simp add: cf4_def cf3_def update_conv')
  have p4: "map_of cf4 (py ''PATH'') = Some (TTable (AList.update (py ''PATH'') (TPath p) tp))"
    by (simp add: cf4_def update_conv')
  have key: "api_key_entry cf4 = Some (TStr k)"
    by (simp add: api_key_entry_def a4 update_conv')
  have dist: "distinct (map fst d) \<longrightarrow> distinct (map fst cf4)"
    by (simp add: cf4_def cf3_def cf2_def cf1_def distinct_update)
  from run a4 p4 key dist show ?thesis
    by (intro exI [of _ cf4]) (simp add: is_table_def)
qed

text \<open>
  C5 holds in the case above, and the docstring of \<open>config\<close> promises that the sections
  \<open>API\<close> and \<open>PATH\<close> are created when the file does not contain them. On the
  configuration file \<open>API = 5\<close>, which parses as TOML, the code finds the key \<open>API\<close>, does
  not create the table, and the assignment into the integer raises \<open>TypeError\<close>: nothing
  is written, and the file still has neither table nor the key.
\<close>

theorem config_not_table_raises:
  "toml_load ex_env (py ''API = 5'' @ [10]) = Inr [(py ''API'', TInt 5)] \<and>
   config ex_env (py ''secret'') ex_config_path (ex_world (py ''API = 5'' @ [10])) =
     (Inl TypeError, emit (Opened ex_config_path) (ex_world (py ''API = 5'' @ [10]))) \<and>
   files (snd (config ex_env (py ''secret'') ex_config_path (ex_world (py ''API = 5'' @ [10]))))
     ex_config_path = Some (py ''API = 5'' @ [10])"
  by (simp add: config_def open_read_def setitem2_def emit_def ex_defs)

subsection \<open>C8: the two source files\<close>

lemma dm_handling_files_eq:
  "dm_handling_files E srcs replace model w = handling_files E srcs replace model w"
proof (induction srcs arbitrary: w)
  case Nil
  show ?case by simp
next
  case (Cons src rest)
  show ?case
  proof (cases "output_path E replace src")
    case (Inl e)
    then show ?thesis by (simp add: output_path_def)
  next
    case (Inr out)
    show ?thesis
    proof (cases "files w (resolve E src)")
      case None
      with Inr show ?thesis
        by (simp add: output_path_def document_file_def open_read_def missing_message_def)
    next
      case (Some content)
      show ?thesis
      proof (cases "model content")
        case e: (Inl e)
        with Inr Some show ?thesis
          by (simp add: output_path_def document_file_def open_read_def Let_def
              missing_message_def)
      next
        case r: (Inr response)
        with Inr Some Cons.IH show ?thesis
          by (simp add: output_path_def document_file_def open_read_def Let_def
              strip_fence_def)
      qed
    qed
  qed
qed

lemma dm_load_config_eq: "dm_load_config E p w = load_config E p w"
  by (simp add: dm_load_config_def load_config_def Let_def split: prod.splits sum.splits)

lemma dm_init_config_eq: "dm_init_config E w = init_config E w"
  by (simp add: dm_init_config_def init_config_def default_config_path_def Let_def
      dm_load_config_eq)

lemma dm_config_eq: "dm_config E k p w = config E k p w"
  by (simp add: dm_config_def config_def open_read_def Let_def split: option.splits)

text \<open>
  C8. The functions of doc\_main.py and of main.py agree on every input: the same result
  and the same world (files and log) from \<open>document\<close>, \<open>config\<close>, \<open>init_config\<close>,
  \<open>load_config\<close> and \<open>handling_files\<close>.
\<close>

theorem sources_equivalent:
  "dm_document E srcs replace language w = document E srcs replace language w \<and>
   dm_config E api_key config_path w = config E api_key config_path w \<and>
   dm_init_config E w = init_config E w \<and>
   dm_load_config E config_path w = load_config E config_path w \<and>
   dm_handling_files E srcs replace model w = handling_files E srcs replace model w"
  by (simp add: dm_document_def document_def Let_def dm_init_config_eq dm_config_eq
      dm_load_config_eq dm_handling_files_eq split: prod.splits sum.splits)

end
